theory Spec2Isabelle
  imports Main
begin

section \<open>The ssh-keyscan wrapper of ospd-ssh-keyscan\<close>

text \<open>
  A shallow embedding of \<^verbatim>\<open>src/ospd_ssh_keyscan/wrapper.py\<close>: the methods
  \<^verbatim>\<open>check\<close> and \<^verbatim>\<open>exec_scan\<close> of class \<^verbatim>\<open>OSPDsshkeyscan\<close>.

  The output of the tool is a Python byte string (\<^verbatim>\<open>str\<close> of Python 2, which the
  comparison \<^verbatim>\<open>line[0] == '#'\<close> of the source presupposes), modelled as a
  \<^typ>\<open>string\<close>. What the source takes from outside the repository is a parameter
  of the model: the operating system that runs the tool (\<open>run\<close>) and the
  framework's option store (\<open>get_scan_options\<close>). The reporting methods of the
  framework (\<^verbatim>\<open>add_scan_host_detail\<close>, \<^verbatim>\<open>add_scan_log\<close>, \<^verbatim>\<open>add_scan_error\<close>)
  are modelled by the list of calls made, in the order they are made.
\<close>

subsection \<open>Python values, exceptions\<close>

datatype pyval = PyNone | PyBool bool | PyInt int | PyStr string

datatype exc = OSError | CalledProcessError | TypeError | ValueError | IndexError

text \<open>\<^verbatim>\<open>dict.get(key)\<close>: the value, or \<^verbatim>\<open>None\<close> for a missing key.\<close>

definition py_get :: "(string \<rightharpoonup> pyval) \<Rightarrow> string \<Rightarrow> pyval" where
  "py_get d k = (case d k of None \<Rightarrow> PyNone | Some v \<Rightarrow> v)"

text \<open>The truth value Python's \<^verbatim>\<open>if\<close> gives a value.\<close>

fun truthy :: "pyval \<Rightarrow> bool" where
  "truthy PyNone = False"
| "truthy (PyBool b) = b"
| "truthy (PyInt n) = (n \<noteq> 0)"
| "truthy (PyStr s) = (s \<noteq> [])"

subsection \<open>Decimal formatting: \<^verbatim>\<open>'%d' % v\<close>\<close>

definition digit_char :: "nat \<Rightarrow> char" where
  "digit_char d = ''0123456789'' ! d"

fun str_nat :: "nat \<Rightarrow> string" where
  "str_nat n = (if n < 10 then [digit_char n] else str_nat (n div 10) @ [digit_char (n mod 10)])"

declare str_nat.simps [simp del]

definition str_int :: "int \<Rightarrow> string" where
  "str_int i = (if i < 0 then CHR ''-'' # str_nat (nat (- i)) else str_nat (nat i))"

text \<open>
  \<^verbatim>\<open>'%d' % v\<close> formats an integer (a \<^verbatim>\<open>bool\<close> is one) and raises
  \<^verbatim>\<open>TypeError\<close> for \<^verbatim>\<open>None\<close> and for a string.
\<close>

fun fmt_d :: "pyval \<Rightarrow> exc + string" where
  "fmt_d (PyInt n) = Inr (str_int n)"
| "fmt_d (PyBool b) = Inr (if b then ''1'' else ''0'')"
| "fmt_d PyNone = Inl TypeError"
| "fmt_d (PyStr s) = Inl TypeError"

subsection \<open>String operations\<close>

definition LF :: char where "LF = CHR 0x0A"
definition CR :: char where "CR = CHR 0x0D"

text \<open>
  \<^verbatim>\<open>str.splitlines()\<close> of a byte string: a line ends at \<^verbatim>\<open>\n\<close>, \<^verbatim>\<open>\r\<close> or
  \<^verbatim>\<open>\r\n\<close>; the line ends are dropped, and there is no empty last line after
  a final line end. The first argument is the line read so far, reversed.
\<close>

fun splitlines_from :: "string \<Rightarrow> string \<Rightarrow> string list" where
  "splitlines_from cur [] = (if cur = [] then [] else [rev cur])"
| "splitlines_from cur (c # cs) =
     (if c = CR then
        (case cs of
           [] \<Rightarrow> [rev cur]
         | d # ds \<Rightarrow> if d = LF then rev cur # splitlines_from [] ds
                     else rev cur # splitlines_from [] cs)
      else if c = LF then rev cur # splitlines_from [] cs
      else splitlines_from (c # cur) cs)"

definition splitlines :: "string \<Rightarrow> string list" where
  "splitlines s = splitlines_from [] s"

text \<open>
  \<^verbatim>\<open>str.split()\<close> with no argument: the maximal runs of characters that are
  not whitespace; whitespace of a byte string is space, \<^verbatim>\<open>\t\<close>, \<^verbatim>\<open>\n\<close>,
  \<^verbatim>\<open>\v\<close>, \<^verbatim>\<open>\f\<close> and \<^verbatim>\<open>\r\<close>.
\<close>

definition is_space :: "char \<Rightarrow> bool" where
  "is_space c = (c = CHR '' '' \<or> c = CHR 0x09 \<or> c = CHR 0x0A \<or> c = CHR 0x0B
                 \<or> c = CHR 0x0C \<or> c = CHR 0x0D)"

fun split_from :: "string \<Rightarrow> string \<Rightarrow> string list" where
  "split_from cur [] = (if cur = [] then [] else [rev cur])"
| "split_from cur (c # cs) =
     (if is_space c then (if cur = [] then split_from [] cs else rev cur # split_from [] cs)
      else split_from (c # cur) cs)"

definition split :: "string \<Rightarrow> string list" where
  "split s = split_from [] s"

text \<open>\<^verbatim>\<open>'\n'.join(xs)\<close>.\<close>

fun join_nl :: "string list \<Rightarrow> string" where
  "join_nl [] = []"
| "join_nl [x] = x"
| "join_nl (x # y # ys) = x @ LF # join_nl (y # ys)"

text \<open>
  \<^verbatim>\<open>host, keytype, key = fields\<close>: unpacking a list into three names raises
  \<^verbatim>\<open>ValueError\<close> unless the list has exactly three elements.
\<close>

fun unpack3 :: "'a list \<Rightarrow> exc + ('a \<times> 'a \<times> 'a)" where
  "unpack3 [a, b, c] = Inr (a, b, c)"
| "unpack3 xs = Inl ValueError"

subsection \<open>The external process\<close>

text \<open>
  What the operating system does with a command line: it cannot launch the
  executable, or the process runs and exits with a status and the text of its
  standard output and standard error. The text is an option so that the test
  \<^verbatim>\<open>result is None\<close> of the source is a branch of the model.
\<close>

datatype proc = LaunchFailed | Exited int "string option"

text \<open>
  \<^verbatim>\<open>subprocess.check_output(argv, stderr=subprocess.STDOUT)\<close> of the Python
  library: \<^verbatim>\<open>OSError\<close> when the executable cannot be launched,
  \<^verbatim>\<open>CalledProcessError\<close> when the exit status is not zero, the output otherwise.
\<close>

definition check_output :: "(string list \<Rightarrow> proc) \<Rightarrow> string list \<Rightarrow> exc + string option" where
  "check_output run argv =
     (case run argv of
        LaunchFailed \<Rightarrow> Inl OSError
      | Exited status out \<Rightarrow> if status \<noteq> 0 then Inl CalledProcessError else Inr out)"

subsection \<open>The result sink\<close>

datatype sink_call =
    HostDetail string string string string   \<comment> \<open>scan id, host, name, value\<close>
  | Log string string string string          \<comment> \<open>scan id, host, name, value\<close>
  | Error string string string               \<comment> \<open>scan id, host, value\<close>

subsection \<open>\<^verbatim>\<open>check\<close>\<close>

text \<open>
  Lines 75 to 87: \<^verbatim>\<open>OSError\<close> is caught and gives \<^verbatim>\<open>False\<close>,
  \<^verbatim>\<open>CalledProcessError\<close> is caught and passed over, any other exception is
  not caught.
\<close>

definition check :: "(string list \<Rightarrow> proc) \<Rightarrow> exc + bool" where
  "check run =
     (case check_output run [''ssh-keyscan''] of
        Inl OSError \<Rightarrow> Inr False
      | Inl CalledProcessError \<Rightarrow> Inr True
      | Inl e \<Rightarrow> Inl e
      | Inr out \<Rightarrow> Inr True)"

subsection \<open>\<^verbatim>\<open>exec_scan\<close>\<close>

text \<open>
  The loop of lines 111 to 122 over the lines left to read. The state is the
  calls made so far, \<^verbatim>\<open>key_data\<close> and \<^verbatim>\<open>parse_errors\<close>. An exception leaves
  the loop with the calls made before it.
\<close>

fun parse_lines ::
  "pyval \<Rightarrow> string \<Rightarrow> string list \<Rightarrow> sink_call list \<times> string list \<times> string list
     \<Rightarrow> sink_call list \<times> (exc + string list \<times> string list)" where
  "parse_lines port scan_id [] (sink, key_data, parse_errors) =
     (sink, Inr (key_data, parse_errors))"
| "parse_lines port scan_id (line # rest) (sink, key_data, parse_errors) =
     (case line of
        [] \<Rightarrow> (sink, Inl IndexError)
      | c # cs \<Rightarrow>
          if c = CHR ''#'' then parse_lines port scan_id rest (sink, key_data, parse_errors)
          else
            (case unpack3 (split line) of
               Inl ValueError \<Rightarrow>
                 parse_lines port scan_id rest (sink, key_data, parse_errors @ [line])
             | Inl e \<Rightarrow> (sink, Inl e)
             | Inr (host, keytype, key) \<Rightarrow>
                 (case fmt_d port of
                    Inl e \<Rightarrow> (sink, Inl e)
                  | Inr p \<Rightarrow>
                      parse_lines port scan_id rest
                        (sink @ [HostDetail scan_id host ''ssh-key''
                                   (p @ '' '' @ keytype @ '' '' @ key)],
                         key_data @ [line], parse_errors))))"

text \<open>Lines 124 to 139: the reports after the loop, and the return value.\<close>

definition report ::
  "(string \<rightharpoonup> pyval) \<Rightarrow> pyval \<Rightarrow> string \<Rightarrow> string \<Rightarrow> sink_call list \<Rightarrow> string list
     \<Rightarrow> string list \<Rightarrow> sink_call list \<times> (exc + int)" where
  "report options port scan_id target sink key_data parse_errors =
     (case fmt_d port of
        Inl e \<Rightarrow> (sink, Inl e)
      | Inr p \<Rightarrow>
          (let sink1 = sink @ [Log scan_id target ''ssh-keyscan summary''
                 (''Via ssh-keyscan '' @ str_nat (length key_data)
                    @ '' public ssh keys were found at port '' @ p @ ''.'')];
               sink2 = (if length parse_errors > 0
                        then sink1 @ [Error scan_id target
                               (''The following lines caused parse errors:'' @ [LF, LF]
                                  @ join_nl parse_errors)]
                        else sink1);
               sink3 = (if truthy (py_get options ''sshkeyaslog'')
                        then sink2 @ [Log scan_id target ''ssh-keyscan key dump''
                               (''Via ssh-keyscan found keys:'' @ [LF, LF] @ join_nl key_data)]
                        else sink2)
           in (sink3, Inr 1)))"

text \<open>
  Lines 89 to 139. The result is the calls made on the sink, in order, and
  either the exception that leaves the method or the value returned.
\<close>

definition exec_scan ::
  "(string \<Rightarrow> (string \<rightharpoonup> pyval)) \<Rightarrow> (string list \<Rightarrow> proc) \<Rightarrow> string \<Rightarrow> string
     \<Rightarrow> sink_call list \<times> (exc + int)" where
  "exec_scan get_scan_options run scan_id target =
     (let options = get_scan_options scan_id;
          port = py_get options ''sshport''
      in case fmt_d port of
           Inl e \<Rightarrow> ([], Inl e)
         | Inr p \<Rightarrow>
             (case check_output run [''ssh-keyscan'', ''-p '' @ p, target] of
                Inl e \<Rightarrow> ([], Inl e)
              | Inr None \<Rightarrow>
                  ([Error scan_id target ''A problem occurred trying to execute 'ssh-keyscan'.'',
                    Error scan_id target ''The result of 'ssh-keyscan' was empty.''],
                   Inr 2)
              | Inr (Some result) \<Rightarrow>
                  (case parse_lines port scan_id (splitlines result) ([], [], []) of
                     (sink, Inl e) \<Rightarrow> (sink, Inl e)
                   | (sink, Inr (key_data, parse_errors)) \<Rightarrow>
                       report options port scan_id target sink key_data parse_errors)))"

subsection \<open>Vocabulary for the statements\<close>

text \<open>A comment line: a line whose first character is \<^verbatim>\<open>#\<close>.\<close>

definition is_comment :: "string \<Rightarrow> bool" where
  "is_comment l = (case l of [] \<Rightarrow> False | c # cs \<Rightarrow> c = CHR ''#'')"

text \<open>A key line: not a comment, and exactly three fields.\<close>

definition key_line :: "string \<Rightarrow> bool" where
  "key_line l = (\<not> is_comment l \<and> length (split l) = 3)"

text \<open>A malformed line: not a comment, and not exactly three fields.\<close>

definition bad_line :: "string \<Rightarrow> bool" where
  "bad_line l = (\<not> is_comment l \<and> length (split l) \<noteq> 3)"

text \<open>The host-detail call of a key line, for the port as formatted.\<close>

definition host_detail_of :: "string \<Rightarrow> string \<Rightarrow> string \<Rightarrow> sink_call" where
  "host_detail_of scan_id p l =
     HostDetail scan_id (split l ! 0) ''ssh-key'' (p @ '' '' @ split l ! 1 @ '' '' @ split l ! 2)"

fun is_host_detail :: "sink_call \<Rightarrow> bool" where
  "is_host_detail (HostDetail s h n v) = True"
| "is_host_detail c = False"

fun is_error :: "sink_call \<Rightarrow> bool" where
  "is_error (Error s h v) = True"
| "is_error c = False"

fun is_log :: "sink_call \<Rightarrow> bool" where
  "is_log (Log s h n v) = True"
| "is_log c = False"

fun is_summary :: "sink_call \<Rightarrow> bool" where
  "is_summary (Log s h n v) = (n = ''ssh-keyscan summary'')"
| "is_summary c = False"

fun is_key_dump :: "sink_call \<Rightarrow> bool" where
  "is_key_dump (Log s h n v) = (n = ''ssh-keyscan key dump'')"
| "is_key_dump c = False"

text \<open>The three reports of lines 124 to 137, as values.\<close>

definition summary_of :: "string \<Rightarrow> string \<Rightarrow> nat \<Rightarrow> string \<Rightarrow> sink_call" where
  "summary_of scan_id target n p =
     Log scan_id target ''ssh-keyscan summary''
       (''Via ssh-keyscan '' @ str_nat n @ '' public ssh keys were found at port '' @ p @ ''.'')"

definition parse_error_of :: "string \<Rightarrow> string \<Rightarrow> string list \<Rightarrow> sink_call" where
  "parse_error_of scan_id target ls =
     Error scan_id target (''The following lines caused parse errors:'' @ [LF, LF] @ join_nl ls)"

definition key_dump_of :: "string \<Rightarrow> string \<Rightarrow> string list \<Rightarrow> sink_call" where
  "key_dump_of scan_id target ls =
     Log scan_id target ''ssh-keyscan key dump''
       (''Via ssh-keyscan found keys:'' @ [LF, LF] @ join_nl ls)"

text \<open>The non-comment lines of an output.\<close>

definition non_comment_lines :: "string \<Rightarrow> string list" where
  "non_comment_lines out = filter (\<lambda>l. \<not> is_comment l) (splitlines out)"

subsection \<open>Sample environments\<close>

text \<open>An option store that holds the same options for every scan.\<close>

definition same_options :: "(string \<times> pyval) list \<Rightarrow> string \<Rightarrow> (string \<rightharpoonup> pyval)" where
  "same_options kvs scan_id = map_of kvs"

text \<open>An operating system that answers every command line in the same way.\<close>

definition always :: "proc \<Rightarrow> string list \<Rightarrow> proc" where
  "always r argv = r"

text \<open>
  An output of four lines: a comment, a key line, a malformed line and a
  second key line; and the same output without its comment line.
\<close>

definition example_output :: string where
  "example_output =
     ''# comment'' @ [LF] @ ''host1 ssh-rsa AAAAB3NzaC1yc2EA'' @ [LF] @ ''badline'' @ [LF]
       @ ''host1 ecdsa-sha2-nistp256 AAAAE2VjZHNh'' @ [LF]"

definition example_output_bare :: string where
  "example_output_bare =
     ''host1 ssh-rsa AAAAB3NzaC1yc2EA'' @ [LF] @ ''badline'' @ [LF]
       @ ''host1 ecdsa-sha2-nistp256 AAAAE2VjZHNh'' @ [LF]"

section \<open>Properties\<close>

subsection \<open>The loop\<close>

lemma unpack3_eq:
  "unpack3 xs = (if length xs = 3 then Inr (xs ! 0, xs ! 1, xs ! 2) else Inl ValueError)"
  by (cases xs rule: unpack3.cases) simp_all

text \<open>
  With a port that formats and no empty line, the loop reads every line: the
  key lines give the host details and \<^verbatim>\<open>key_data\<close>, the malformed lines give
  \<^verbatim>\<open>parse_errors\<close>, each in the order of the output.
\<close>

lemma parse_lines_ok:
  assumes "fmt_d port = Inr p" and "[] \<notin> set ls"
  shows "parse_lines port sid ls (snk, kd, pe) =
           (snk @ map (host_detail_of sid p) (filter key_line ls),
            Inr (kd @ filter key_line ls, pe @ filter bad_line ls))"
  using assms(2)
proof (induction ls arbitrary: snk kd pe)
  case Nil
  show ?case by simp
next
  case (Cons l ls)
  from Cons.prems obtain c cs where l: "l = c # cs" by (cases l) auto
  from Cons.prems have rest: "[] \<notin> set ls" by simp
  show ?case
  proof (cases "c = CHR ''#''")
    case True
    then show ?thesis
      using Cons.IH [OF rest] l by (simp add: key_line_def bad_line_def is_comment_def)
  next
    case False
    show ?thesis
    proof (cases "length (split l) = 3")
      case True
      then show ?thesis
        using Cons.IH [OF rest] l False assms(1)
        by (simp add: unpack3_eq key_line_def bad_line_def is_comment_def host_detail_of_def)
    next
      case len: False
      then show ?thesis
        using Cons.IH [OF rest] l False
        by (simp add: unpack3_eq key_line_def bad_line_def is_comment_def)
    qed
  qed
qed

text \<open>The loop does the same with and without the comment lines.\<close>

lemma parse_lines_skip_comments:
  "parse_lines port sid ls acc = parse_lines port sid (filter (\<lambda>l. \<not> is_comment l) ls) acc"
proof (induction ls arbitrary: acc)
  case Nil
  show ?case by simp
next
  case (Cons l ls)
  obtain snk kd pe where acc: "acc = (snk, kd, pe)" by (cases acc) auto
  show ?case
  proof (cases l)
    case Nil
    then show ?thesis by (simp add: acc is_comment_def)
  next
    case (Cons c cs)
    then show ?thesis
      using Cons.IH
      by (simp add: acc is_comment_def split: sum.splits exc.splits prod.splits)
  qed
qed

subsection \<open>A run that reads every line\<close>

lemmas eval_defs = exec_scan_def check_output_def report_def py_get_def same_options_def
  always_def splitlines_def split_def LF_def CR_def is_space_def str_int_def str_nat.simps
  digit_char_def Let_def example_output_def example_output_bare_def

text \<open>
  When the port formats, the tool exits with status 0 and no line of its
  output is empty, the calls on the sink are: the host details of the key
  lines, the summary, the parse errors if there is a malformed line, the key
  dump if \<^verbatim>\<open>sshkeyaslog\<close> is true; and 1 is returned.
\<close>

lemma exec_scan_ok:
  assumes port: "fmt_d (py_get (gso sid) ''sshport'') = Inr p"
    and run: "run [''ssh-keyscan'', ''-p '' @ p, target] = Exited 0 (Some out)"
    and lines: "[] \<notin> set (splitlines out)"
  shows "exec_scan gso run sid target =
           (map (host_detail_of sid p) (filter key_line (splitlines out))
              @ [summary_of sid target (length (filter key_line (splitlines out))) p]
              @ (if filter bad_line (splitlines out) = [] then []
                 else [parse_error_of sid target (filter bad_line (splitlines out))])
              @ (if truthy (py_get (gso sid) ''sshkeyaslog'')
                 then [key_dump_of sid target (filter key_line (splitlines out))] else []),
            Inr 1)"
  using port run
  by (simp add: exec_scan_def check_output_def parse_lines_ok [OF port lines] report_def
      summary_of_def parse_error_of_def key_dump_of_def Let_def)

lemma host_details_of_map [simp]:
  "filter is_host_detail (map (host_detail_of sid p) ls) = map (host_detail_of sid p) ls"
  "filter is_key_dump (map (host_detail_of sid p) ls) = []"
  "filter is_summary (map (host_detail_of sid p) ls) = []"
  "filter is_error (map (host_detail_of sid p) ls) = []"
  by (induction ls) (simp_all add: host_detail_of_def)

text \<open>In such a run there is one summary, after the host details.\<close>

lemma exec_scan_summary:
  assumes port: "fmt_d (py_get (gso sid) ''sshport'') = Inr p"
    and run: "run [''ssh-keyscan'', ''-p '' @ p, target] = Exited 0 (Some out)"
    and lines: "[] \<notin> set (splitlines out)"
  shows "filter is_summary (fst (exec_scan gso run sid target)) =
           [summary_of sid target (length (filter key_line (splitlines out))) p]"
  by (simp add: exec_scan_ok [where gso = gso and sid = sid and run = run, OF port run lines]
      summary_of_def parse_error_of_def key_dump_of_def)

text \<open>In such a run the malformed lines are reported together, in one error.\<close>

lemma exec_scan_parse_errors:
  assumes port: "fmt_d (py_get (gso sid) ''sshport'') = Inr p"
    and run: "run [''ssh-keyscan'', ''-p '' @ p, target] = Exited 0 (Some out)"
    and lines: "[] \<notin> set (splitlines out)"
  shows "filter is_error (fst (exec_scan gso run sid target)) =
           (if filter bad_line (splitlines out) = [] then []
            else [parse_error_of sid target (filter bad_line (splitlines out))])"
  by (simp add: exec_scan_ok [where gso = gso and sid = sid and run = run, OF port run lines]
      summary_of_def parse_error_of_def key_dump_of_def)

section \<open>The claims\<close>

subsection \<open>C9: null output\<close>

text \<open>
  Claim C9. When the value \<^verbatim>\<open>check_output\<close> returns is \<^verbatim>\<open>None\<close>, the calls
  on the sink are exactly two errors for the target, first the message that a
  problem occurred executing the tool, then the message that the result was
  empty; 2 is returned and no line is read. (The tool has run, so the port
  has been formatted for its command line.)
\<close>

theorem exec_scan_null_output:
  assumes "fmt_d (py_get (gso sid) ''sshport'') = Inr p"
    and "run [''ssh-keyscan'', ''-p '' @ p, target] = Exited 0 None"
  shows "exec_scan gso run sid target =
           ([Error sid target ''A problem occurred trying to execute 'ssh-keyscan'.'',
             Error sid target ''The result of 'ssh-keyscan' was empty.''],
            Inr 2)"
  using assms by (simp add: exec_scan_def check_output_def)

theorem exec_scan_null_output_witness:
  "fmt_d (py_get (same_options [(''sshport'', PyInt 22)] ''scan1'') ''sshport'') = Inr ''22''
   \<and> always (Exited 0 None) [''ssh-keyscan'', ''-p 22'', ''target1''] = Exited 0 None
   \<and> exec_scan (same_options [(''sshport'', PyInt 22)]) (always (Exited 0 None))
        ''scan1'' ''target1''
      = ([Error ''scan1'' ''target1'' ''A problem occurred trying to execute 'ssh-keyscan'.'',
          Error ''scan1'' ''target1'' ''The result of 'ssh-keyscan' was empty.''],
         Inr 2)"
proof -
  have port: "fmt_d (py_get (same_options [(''sshport'', PyInt 22)] ''scan1'') ''sshport'')
                = Inr ''22''"
    by (simp add: eval_defs)
  have run: "always (Exited 0 None) [''ssh-keyscan'', ''-p '' @ ''22'', ''target1'']
               = Exited 0 None"
    by (simp add: always_def)
  from exec_scan_null_output
         [where gso = "same_options [(''sshport'', PyInt 22)]" and sid = "''scan1''"
            and run = "always (Exited 0 None)", OF port run]
  show ?thesis using port run by simp
qed

subsection \<open>C8: the availability check\<close>

text \<open>
  Claim C8. \<^verbatim>\<open>check\<close> returns \<^verbatim>\<open>False\<close> exactly when the executable cannot be
  launched, and returns \<^verbatim>\<open>True\<close> when it is launched and exits with a status
  that is not zero.
\<close>

theorem check_available:
  "(check run = Inr False \<longleftrightarrow> run [''ssh-keyscan''] = LaunchFailed)
   \<and> (run [''ssh-keyscan''] = Exited status out \<longrightarrow> status \<noteq> 0 \<longrightarrow> check run = Inr True)"
  by (simp add: check_def check_output_def split: proc.splits)

theorem check_available_witness:
  "always (Exited 1 (Some ''usage: ssh-keyscan'')) [''ssh-keyscan'']
     = Exited 1 (Some ''usage: ssh-keyscan'')
   \<and> (1::int) \<noteq> 0
   \<and> check (always (Exited 1 (Some ''usage: ssh-keyscan''))) = Inr True
   \<and> always LaunchFailed [''ssh-keyscan''] = LaunchFailed
   \<and> check (always LaunchFailed) = Inr False"
  using check_available [of "always (Exited 1 (Some ''usage: ssh-keyscan''))" 1
      "Some ''usage: ssh-keyscan''"]
    check_available [of "always LaunchFailed" 1 None]
  by (simp add: always_def)

subsection \<open>C10: the loop is total on non-empty lines\<close>

text \<open>
  Claim C10. When \<^verbatim>\<open>sshport\<close> is an integer, the tool has exited with status 0
  with an output that is not \<^verbatim>\<open>None\<close>, and every line of the output is
  non-empty, the loop ends without an exception (in particular
  \<^verbatim>\<open>line[0]\<close> never raises \<^verbatim>\<open>IndexError\<close>) and \<^verbatim>\<open>exec_scan\<close> returns 1.
\<close>

theorem exec_scan_total:
  assumes port: "py_get (gso sid) ''sshport'' = PyInt n"
    and run: "run [''ssh-keyscan'', ''-p '' @ str_int n, target] = Exited 0 (Some out)"
    and lines: "[] \<notin> set (splitlines out)"
  shows "\<not> isl (snd (parse_lines (PyInt n) sid (splitlines out) ([], [], [])))
         \<and> snd (exec_scan gso run sid target) = Inr 1"
proof -
  have f: "fmt_d (py_get (gso sid) ''sshport'') = Inr (str_int n)"
    using port by simp
  have g: "fmt_d (PyInt n) = Inr (str_int n)"
    by simp
  show ?thesis
    by (simp add: exec_scan_ok [where gso = gso and sid = sid and run = run, OF f run lines]
        parse_lines_ok [OF g lines])
qed

theorem exec_scan_total_witness:
  "py_get (same_options [(''sshport'', PyInt 22)] ''scan1'') ''sshport'' = PyInt 22
   \<and> always (Exited 0 (Some example_output)) [''ssh-keyscan'', ''-p 22'', ''target1'']
       = Exited 0 (Some example_output)
   \<and> [] \<notin> set (splitlines example_output)
   \<and> \<not> isl (snd (parse_lines (PyInt 22) ''scan1'' (splitlines example_output) ([], [], [])))
   \<and> snd (exec_scan (same_options [(''sshport'', PyInt 22)])
             (always (Exited 0 (Some example_output))) ''scan1'' ''target1'') = Inr 1"
proof -
  have port: "py_get (same_options [(''sshport'', PyInt 22)] ''scan1'') ''sshport'' = PyInt 22"
    by (simp add: py_get_def same_options_def)
  have run: "always (Exited 0 (Some example_output))
               [''ssh-keyscan'', ''-p '' @ str_int 22, ''target1'']
             = Exited 0 (Some example_output)"
    by (simp add: always_def)
  have lines: "[] \<notin> set (splitlines example_output)"
    by (simp add: example_output_def splitlines_def LF_def CR_def)
  have p22: "''-p '' @ str_int 22 = ''-p 22''"
    by (simp add: str_int_def str_nat.simps digit_char_def)
  from exec_scan_total
         [where gso = "same_options [(''sshport'', PyInt 22)]" and sid = "''scan1''"
            and run = "always (Exited 0 (Some example_output))", OF port run lines]
  show ?thesis using port run lines p22 by simp
qed

subsection \<open>C4: a tool that exits with a status other than zero\<close>

text \<open>
  Claim C4 does not hold as stated: \<^verbatim>\<open>check_output\<close> checks the exit status, so
  the same output is parsed after status 0 and is not after status 1.
\<close>

theorem nonzero_exit_output_not_parsed:
  "exec_scan (same_options [(''sshport'', PyInt 22)])
     (always (Exited 1 (Some (''host1 ssh-rsa AAAA'' @ [LF])))) ''scan1'' ''target1''
   = ([], Inl CalledProcessError)
   \<and> exec_scan (same_options [(''sshport'', PyInt 22)])
       (always (Exited 0 (Some (''host1 ssh-rsa AAAA'' @ [LF])))) ''scan1'' ''target1''
     = ([HostDetail ''scan1'' ''host1'' ''ssh-key'' ''22 ssh-rsa AAAA'',
         Log ''scan1'' ''target1'' ''ssh-keyscan summary''
           ''Via ssh-keyscan 1 public ssh keys were found at port 22.''],
        Inr 1)"
  by (simp add: eval_defs)

text \<open>
  Claim C4, amended. When the tool exits with a status that is not zero,
  \<^verbatim>\<open>exec_scan\<close> does tell this from success: \<^verbatim>\<open>check_output\<close> checks the
  exit status, the output is not parsed, no host detail and no log entry is
  reported, and the success code 1 is not returned.
\<close>

theorem exec_scan_nonzero_exit:
  assumes "fmt_d (py_get (gso sid) ''sshport'') = Inr p"
    and "run [''ssh-keyscan'', ''-p '' @ p, target] = Exited status out"
    and "status \<noteq> 0"
  shows "filter is_host_detail (fst (exec_scan gso run sid target)) = []
         \<and> filter is_log (fst (exec_scan gso run sid target)) = []
         \<and> snd (exec_scan gso run sid target) \<noteq> Inr 1"
  using assms by (simp add: exec_scan_def check_output_def)

theorem exec_scan_nonzero_exit_witness:
  "fmt_d (py_get (same_options [(''sshport'', PyInt 22)] ''scan1'') ''sshport'') = Inr ''22''
   \<and> always (Exited 255 (Some example_output)) [''ssh-keyscan'', ''-p 22'', ''target1'']
       = Exited 255 (Some example_output)
   \<and> (255::int) \<noteq> 0
   \<and> filter is_host_detail
        (fst (exec_scan (same_options [(''sshport'', PyInt 22)])
                (always (Exited 255 (Some example_output))) ''scan1'' ''target1'')) = []
   \<and> filter is_log
        (fst (exec_scan (same_options [(''sshport'', PyInt 22)])
                (always (Exited 255 (Some example_output))) ''scan1'' ''target1'')) = []
   \<and> snd (exec_scan (same_options [(''sshport'', PyInt 22)])
             (always (Exited 255 (Some example_output))) ''scan1'' ''target1'') \<noteq> Inr 1"
proof -
  have port: "fmt_d (py_get (same_options [(''sshport'', PyInt 22)] ''scan1'') ''sshport'')
                = Inr ''22''"
    by (simp add: eval_defs)
  have run: "always (Exited 255 (Some example_output))
               [''ssh-keyscan'', ''-p '' @ ''22'', ''target1'']
             = Exited 255 (Some example_output)"
    by (simp add: always_def)
  have st: "(255::int) \<noteq> 0"
    by simp
  from exec_scan_nonzero_exit
         [where gso = "same_options [(''sshport'', PyInt 22)]" and sid = "''scan1''"
            and run = "always (Exited 255 (Some example_output))", OF port run st]
  show ?thesis using port run by simp
qed

subsection \<open>C2: host details\<close>

text \<open>
  Claim C2 does not hold as stated for every line of three fields: the banner
  line that \<^verbatim>\<open>ssh-keyscan\<close> prints for a host starts with \<^verbatim>\<open>#\<close>, has exactly
  three fields, and is passed over by the test of line 112.
\<close>

theorem comment_of_three_fields_no_host_detail:
  "length (split ''# host1:22 SSH-2.0-OpenSSH_6.7'') = 3
   \<and> exec_scan (same_options [(''sshport'', PyInt 22)])
        (always (Exited 0 (Some (''# host1:22 SSH-2.0-OpenSSH_6.7'' @ [LF]))))
        ''scan1'' ''target1''
      = ([Log ''scan1'' ''target1'' ''ssh-keyscan summary''
            ''Via ssh-keyscan 0 public ssh keys were found at port 22.''],
         Inr 1)"
  by (simp add: eval_defs)

text \<open>
  Claim C2, amended. In a run that reads every line (the tool exits with
  status 0 and no line of its output is empty), the host-detail calls are, in
  the order of the output, one for every line that does not start with
  \<^verbatim>\<open>#\<close> and has exactly three fields: for the host that is the first field,
  with the name \<^verbatim>\<open>ssh-key\<close> and the value made of the port, the key type and
  the key; and there is no other host-detail call.
\<close>

theorem exec_scan_host_details:
  assumes port: "fmt_d (py_get (gso sid) ''sshport'') = Inr p"
    and run: "run [''ssh-keyscan'', ''-p '' @ p, target] = Exited 0 (Some out)"
    and lines: "[] \<notin> set (splitlines out)"
  shows "filter is_host_detail (fst (exec_scan gso run sid target)) =
           map (host_detail_of sid p) (filter key_line (splitlines out))"
  by (simp add: exec_scan_ok [where gso = gso and sid = sid and run = run, OF port run lines]
      summary_of_def parse_error_of_def key_dump_of_def)

theorem exec_scan_host_details_witness:
  "fmt_d (py_get (same_options [(''sshport'', PyInt 22)] ''scan1'') ''sshport'') = Inr ''22''
   \<and> always (Exited 0 (Some example_output)) [''ssh-keyscan'', ''-p 22'', ''target1'']
       = Exited 0 (Some example_output)
   \<and> [] \<notin> set (splitlines example_output)
   \<and> filter is_host_detail
        (fst (exec_scan (same_options [(''sshport'', PyInt 22)])
                (always (Exited 0 (Some example_output))) ''scan1'' ''target1''))
      = [HostDetail ''scan1'' ''host1'' ''ssh-key'' ''22 ssh-rsa AAAAB3NzaC1yc2EA'',
         HostDetail ''scan1'' ''host1'' ''ssh-key'' ''22 ecdsa-sha2-nistp256 AAAAE2VjZHNh'']"
proof -
  have port: "fmt_d (py_get (same_options [(''sshport'', PyInt 22)] ''scan1'') ''sshport'')
                = Inr ''22''"
    by (simp add: eval_defs)
  have run: "always (Exited 0 (Some example_output))
               [''ssh-keyscan'', ''-p '' @ ''22'', ''target1'']
             = Exited 0 (Some example_output)"
    by (simp add: always_def)
  have lines: "[] \<notin> set (splitlines example_output)"
    by (simp add: example_output_def splitlines_def LF_def CR_def)
  have details: "map (host_detail_of ''scan1'' ''22'') (filter key_line (splitlines example_output))
      = [HostDetail ''scan1'' ''host1'' ''ssh-key'' ''22 ssh-rsa AAAAB3NzaC1yc2EA'',
         HostDetail ''scan1'' ''host1'' ''ssh-key'' ''22 ecdsa-sha2-nistp256 AAAAE2VjZHNh'']"
    by (simp add: example_output_def splitlines_def split_def LF_def CR_def is_space_def
        key_line_def is_comment_def host_detail_of_def)
  from exec_scan_host_details
         [where gso = "same_options [(''sshport'', PyInt 22)]" and sid = "''scan1''"
            and run = "always (Exited 0 (Some example_output))", OF port run lines]
  show ?thesis using port run lines details by simp
qed

subsection \<open>C7: the key dump\<close>

text \<open>
  Claim C7 does not hold as stated for every run: with \<^verbatim>\<open>sshkeyaslog\<close> true
  there is no key dump when the output is \<^verbatim>\<open>None\<close> (the return of line 102)
  or when the tool exits with status 1 (\<^verbatim>\<open>check_output\<close> raises).
\<close>

theorem key_dump_missing_though_enabled:
  "truthy (py_get (same_options [(''sshport'', PyInt 22), (''sshkeyaslog'', PyBool True)]
                     ''scan1'') ''sshkeyaslog'')
   \<and> filter is_key_dump
        (fst (exec_scan (same_options [(''sshport'', PyInt 22), (''sshkeyaslog'', PyBool True)])
                (always (Exited 0 None)) ''scan1'' ''target1'')) = []
   \<and> filter is_key_dump
        (fst (exec_scan (same_options [(''sshport'', PyInt 22), (''sshkeyaslog'', PyBool True)])
                (always (Exited 1 (Some (''host1 ssh-rsa AAAA'' @ [LF]))))
                ''scan1'' ''target1'')) = []"
  by (simp add: eval_defs)

text \<open>
  Claim C7, amended. In a run that reads every line (the tool exits with
  status 0, its output is not \<^verbatim>\<open>None\<close> and has no empty line), there is a key
  dump exactly when \<^verbatim>\<open>sshkeyaslog\<close> is true: then it is one log entry for the
  target, with the key lines as they were read, joined by newlines in the
  order of the output; otherwise there is none, whatever the number of keys.
\<close>

theorem exec_scan_key_dump:
  assumes port: "fmt_d (py_get (gso sid) ''sshport'') = Inr p"
    and run: "run [''ssh-keyscan'', ''-p '' @ p, target] = Exited 0 (Some out)"
    and lines: "[] \<notin> set (splitlines out)"
  shows "filter is_key_dump (fst (exec_scan gso run sid target)) =
           (if truthy (py_get (gso sid) ''sshkeyaslog'')
            then [Log sid target ''ssh-keyscan key dump''
                    (''Via ssh-keyscan found keys:'' @ [LF, LF]
                       @ join_nl (filter key_line (splitlines out)))]
            else [])"
  by (simp add: exec_scan_ok [where gso = gso and sid = sid and run = run, OF port run lines]
      summary_of_def parse_error_of_def key_dump_of_def)

theorem exec_scan_key_dump_witness:
  "fmt_d (py_get (same_options [(''sshport'', PyInt 22), (''sshkeyaslog'', PyBool True)]
                    ''scan1'') ''sshport'') = Inr ''22''
   \<and> always (Exited 0 (Some example_output)) [''ssh-keyscan'', ''-p 22'', ''target1'']
       = Exited 0 (Some example_output)
   \<and> [] \<notin> set (splitlines example_output)
   \<and> filter is_key_dump
        (fst (exec_scan (same_options [(''sshport'', PyInt 22), (''sshkeyaslog'', PyBool True)])
                (always (Exited 0 (Some example_output))) ''scan1'' ''target1''))
      = [Log ''scan1'' ''target1'' ''ssh-keyscan key dump''
           (''Via ssh-keyscan found keys:'' @ [LF, LF] @ ''host1 ssh-rsa AAAAB3NzaC1yc2EA''
              @ [LF] @ ''host1 ecdsa-sha2-nistp256 AAAAE2VjZHNh'')]"
proof -
  have port: "fmt_d (py_get (same_options [(''sshport'', PyInt 22),
                 (''sshkeyaslog'', PyBool True)] ''scan1'') ''sshport'') = Inr ''22''"
    by (simp add: eval_defs)
  have run: "always (Exited 0 (Some example_output))
               [''ssh-keyscan'', ''-p '' @ ''22'', ''target1'']
             = Exited 0 (Some example_output)"
    by (simp add: always_def)
  have lines: "[] \<notin> set (splitlines example_output)"
    by (simp add: example_output_def splitlines_def LF_def CR_def)
  have flag: "truthy (py_get (same_options [(''sshport'', PyInt 22),
                 (''sshkeyaslog'', PyBool True)] ''scan1'') ''sshkeyaslog'')"
    by (simp add: py_get_def same_options_def)
  have keys: "join_nl (filter key_line (splitlines example_output))
      = ''host1 ssh-rsa AAAAB3NzaC1yc2EA'' @ [LF] @ ''host1 ecdsa-sha2-nistp256 AAAAE2VjZHNh''"
    by (simp add: example_output_def splitlines_def split_def LF_def CR_def is_space_def
        key_line_def is_comment_def)
  from exec_scan_key_dump
         [where gso = "same_options [(''sshport'', PyInt 22), (''sshkeyaslog'', PyBool True)]"
            and sid = "''scan1''" and run = "always (Exited 0 (Some example_output))",
          OF port run lines]
  show ?thesis using port run lines flag keys by simp
qed

subsection \<open>C6: comment lines\<close>

text \<open>
  Claim C6. A line whose first character is \<^verbatim>\<open>#\<close> is passed over entirely:
  two outputs with the same non-comment lines give the same calls on the sink
  (the same host details, the same summary with the same count, the same
  parse errors, the same key dump) and the same result.
\<close>

theorem exec_scan_ignores_comments:
  assumes port: "fmt_d (py_get (gso sid) ''sshport'') = Inr p"
    and run1: "run1 [''ssh-keyscan'', ''-p '' @ p, target] = Exited 0 (Some out1)"
    and run2: "run2 [''ssh-keyscan'', ''-p '' @ p, target] = Exited 0 (Some out2)"
    and same: "non_comment_lines out1 = non_comment_lines out2"
  shows "exec_scan gso run1 sid target = exec_scan gso run2 sid target"
proof -
  have "parse_lines port sid (splitlines out1) acc = parse_lines port sid (splitlines out2) acc"
    for port acc
    using parse_lines_skip_comments [of port sid "splitlines out1" acc]
      parse_lines_skip_comments [of port sid "splitlines out2" acc] same
    by (simp add: non_comment_lines_def)
  then show ?thesis
    using port run1 run2 by (simp add: exec_scan_def check_output_def Let_def)
qed

theorem exec_scan_ignores_comments_witness:
  "fmt_d (py_get (same_options [(''sshport'', PyInt 22), (''sshkeyaslog'', PyBool True)]
                    ''scan1'') ''sshport'') = Inr ''22''
   \<and> always (Exited 0 (Some example_output)) [''ssh-keyscan'', ''-p 22'', ''target1'']
       = Exited 0 (Some example_output)
   \<and> always (Exited 0 (Some example_output_bare)) [''ssh-keyscan'', ''-p 22'', ''target1'']
       = Exited 0 (Some example_output_bare)
   \<and> non_comment_lines example_output = non_comment_lines example_output_bare
   \<and> exec_scan (same_options [(''sshport'', PyInt 22), (''sshkeyaslog'', PyBool True)])
        (always (Exited 0 (Some example_output))) ''scan1'' ''target1''
      = exec_scan (same_options [(''sshport'', PyInt 22), (''sshkeyaslog'', PyBool True)])
          (always (Exited 0 (Some example_output_bare))) ''scan1'' ''target1''"
proof -
  have port: "fmt_d (py_get (same_options [(''sshport'', PyInt 22),
                 (''sshkeyaslog'', PyBool True)] ''scan1'') ''sshport'') = Inr ''22''"
    by (simp add: eval_defs)
  have run1: "always (Exited 0 (Some example_output))
                [''ssh-keyscan'', ''-p '' @ ''22'', ''target1'']
              = Exited 0 (Some example_output)"
    by (simp add: always_def)
  have run2: "always (Exited 0 (Some example_output_bare))
                [''ssh-keyscan'', ''-p '' @ ''22'', ''target1'']
              = Exited 0 (Some example_output_bare)"
    by (simp add: always_def)
  have same: "non_comment_lines example_output = non_comment_lines example_output_bare"
    by (simp add: non_comment_lines_def example_output_def example_output_bare_def
        splitlines_def LF_def CR_def is_comment_def)
  from exec_scan_ignores_comments
         [where gso = "same_options [(''sshport'', PyInt 22), (''sshkeyaslog'', PyBool True)]"
            and sid = "''scan1''" and ?run1.0 = "always (Exited 0 (Some example_output))"
            and ?run2.0 = "always (Exited 0 (Some example_output_bare))",
          OF port run1 run2 same]
  show ?thesis using port run1 run2 same by simp
qed

subsection \<open>C1, C3, C5: an empty line, and exceptions that leave the method\<close>

text \<open>
  Claim C1, at an output with an empty line. The output is not \<^verbatim>\<open>None\<close>; the
  key of the first line is reported as a host detail; \<^verbatim>\<open>line[0]\<close> raises
  \<^verbatim>\<open>IndexError\<close> at the empty second line, and the summary of lines 127 and
  128 is never reported, against the comment of lines 125 and 126.
\<close>

theorem exec_scan_empty_line_no_summary:
  "exec_scan (same_options [(''sshport'', PyInt 22)])
     (always (Exited 0 (Some (''host1 ssh-rsa AAAA'' @ [LF, LF])))) ''scan1'' ''target1''
   = ([HostDetail ''scan1'' ''host1'' ''ssh-key'' ''22 ssh-rsa AAAA''], Inl IndexError)"
  by (simp add: eval_defs)

text \<open>
  Claim C3, at an output with an empty line. The empty second line is a line
  that is not a comment and has not three fields; it is not collected as a
  parse error: \<^verbatim>\<open>line[0]\<close> raises \<^verbatim>\<open>IndexError\<close> before the \<^verbatim>\<open>try\<close> of line
  114, the key line after it is not read, and the malformed first line is
  never reported.
\<close>

theorem exec_scan_empty_line_stops_parsing:
  "exec_scan (same_options [(''sshport'', PyInt 22)])
     (always (Exited 0 (Some (''badline'' @ [LF, LF] @ ''host1 ssh-rsa AAAA'' @ [LF]))))
     ''scan1'' ''target1''
   = ([], Inl IndexError)"
  by (simp add: eval_defs)

text \<open>
  Claim C5, at three runs. An exception leaves \<^verbatim>\<open>exec_scan\<close>, no error is
  reported on the sink and no exit code is returned: \<^verbatim>\<open>CalledProcessError\<close>
  when the tool exits with status 1, \<^verbatim>\<open>OSError\<close> when the tool cannot be
  launched, \<^verbatim>\<open>IndexError\<close> when the output is one empty line. (\<^verbatim>\<open>check\<close>
  catches the first two; the branch of lines 97 to 102 reports a problem of
  execution and returns 2, but \<^verbatim>\<open>check_output\<close> raises instead of returning
  \<^verbatim>\<open>None\<close>.)
\<close>

theorem exec_scan_raises:
  "exec_scan (same_options [(''sshport'', PyInt 70000)])
     (always (Exited 1 (Some ''Bad port''))) ''scan1'' ''target1''
   = ([], Inl CalledProcessError)
   \<and> exec_scan (same_options [(''sshport'', PyInt 22)]) (always LaunchFailed)
        ''scan1'' ''target1''
      = ([], Inl OSError)
   \<and> exec_scan (same_options [(''sshport'', PyInt 22)]) (always (Exited 0 (Some [LF])))
        ''scan1'' ''target1''
      = ([], Inl IndexError)"
  by (simp add: eval_defs)

end
